theory Spec2Isabelle
  imports Main "HOL-Library.Sublist"
begin

section \<open>The in-memory backend (package config, type MemoryBackend)\<close>

text \<open>
  Go's \<^verbatim>\<open>error\<close> values are modelled by their message; a nil error is \<open>None\<close>.
  A value of Go type \<^verbatim>\<open>map[string]string\<close> is either nil (\<open>None\<close>) or a map
  (\<open>Some m\<close>); reading a nil map finds nothing, like reading an empty one.

  The backend holds \<^verbatim>\<open>maps map[string]map[string]string\<close> and six optional function
  fields that, when set, replace the method of the same name. A replacement is modelled as a
  function of the call's arguments that leaves \<open>maps\<close> alone. A Go slice filled by
  ranging over a map has no specified order and no repeated element; the model keeps the set
  of its elements. Every key of \<open>maps\<close> has a value of its own in the model: one map
  object stored under two keys is not represented.
\<close>

datatype error = Error string

type_synonym fields = "(string \<rightharpoonup> string) option"

record MemoryBackend =
  maps :: "string \<rightharpoonup> fields"
  MembersFunc :: "(string \<Rightarrow> string set \<times> error option) option"
  KeysFunc :: "(string \<Rightarrow> string set \<times> error option) option"
  AddMemberFunc :: "(string \<Rightarrow> string \<Rightarrow> int \<times> error option) option"
  RemoveMemberFunc :: "(string \<Rightarrow> string \<Rightarrow> int \<times> error option) option"
  NotifyFunc :: "(string \<Rightarrow> string \<Rightarrow> int \<times> error option) option"
  SetMultiFunc :: "(string \<Rightarrow> fields \<Rightarrow> string \<times> error option) option"

definition NewMemoryBackend :: MemoryBackend where
  "NewMemoryBackend =
     \<lparr>maps = Map.empty, MembersFunc = None, KeysFunc = None, AddMemberFunc = None,
      RemoveMemberFunc = None, NotifyFunc = None, SetMultiFunc = None\<rparr>"

text \<open>\<^verbatim>\<open>r.maps[key]\<close>: the value stored under the key, nil when there is none.\<close>

definition lookup :: "MemoryBackend \<Rightarrow> string \<Rightarrow> fields" where
  "lookup r key = (case maps r key of None \<Rightarrow> None | Some h \<Rightarrow> h)"


definition Ttl :: "string \<Rightarrow> MemoryBackend \<Rightarrow> (int \<times> error option) \<times> MemoryBackend" where
  "Ttl key r = ((0, None), r)"


definition AddMember :: "string \<Rightarrow> string \<Rightarrow> MemoryBackend \<Rightarrow> (int \<times> error option) \<times> MemoryBackend" where
  "AddMember key val r =
     (case AddMemberFunc r of
        Some f \<Rightarrow> (f key val, r)
      | None \<Rightarrow>
          (let set0 = (case lookup r key of None \<Rightarrow> Map.empty | Some m \<Rightarrow> m)
           in ((1, None), r\<lparr>maps := (maps r)(key \<mapsto> Some (set0(val \<mapsto> ''1'')))\<rparr>)))"

definition RemoveMember :: "string \<Rightarrow> string \<Rightarrow> MemoryBackend \<Rightarrow> (int \<times> error option) \<times> MemoryBackend" where
  "RemoveMember key val r =
     (case RemoveMemberFunc r of
        Some f \<Rightarrow> (f key val, r)
      | None \<Rightarrow>
          (case lookup r key of
             None \<Rightarrow> ((0, None), r)
           | Some m \<Rightarrow>
               (if m val \<noteq> None
                then ((1, None), r\<lparr>maps := (maps r)(key \<mapsto> Some (m(val := None)))\<rparr>)
                else ((0, None), r))))"

definition Members :: "string \<Rightarrow> MemoryBackend \<Rightarrow> (string set \<times> error option) \<times> MemoryBackend" where
  "Members key r =
     (case MembersFunc r of
        Some f \<Rightarrow> (f key, r)
      | None \<Rightarrow> (((case lookup r key of None \<Rightarrow> {} | Some m \<Rightarrow> dom m), None), r))"

definition Notify :: "string \<Rightarrow> string \<Rightarrow> MemoryBackend \<Rightarrow> (int \<times> error option) \<times> MemoryBackend" where
  "Notify key val r =
     (case NotifyFunc r of Some f \<Rightarrow> (f key val, r) | None \<Rightarrow> ((0, None), r))"

definition Set :: "string \<Rightarrow> string \<Rightarrow> string \<Rightarrow> MemoryBackend \<Rightarrow> (string \<times> error option) \<times> MemoryBackend" where
  "Set key field val r = ((''OK'', None), r)"

definition Get :: "string \<Rightarrow> string \<Rightarrow> MemoryBackend \<Rightarrow> (string \<times> error option) \<times> MemoryBackend" where
  "Get key field r = (('''', None), r)"

definition GetAll :: "string \<Rightarrow> MemoryBackend \<Rightarrow> (fields \<times> error option) \<times> MemoryBackend" where
  "GetAll key r = ((lookup r key, None), r)"

definition SetMulti :: "string \<Rightarrow> fields \<Rightarrow> MemoryBackend \<Rightarrow> (string \<times> error option) \<times> MemoryBackend" where
  "SetMulti key vals r =
     (case SetMultiFunc r of
        Some f \<Rightarrow> (f key vals, r)
      | None \<Rightarrow> ((''OK'', None), r\<lparr>maps := (maps r)(key \<mapsto> vals)\<rparr>))"

definition DeleteMulti :: "string \<Rightarrow> string list \<Rightarrow> MemoryBackend \<Rightarrow> (int \<times> error option) \<times> MemoryBackend" where
  "DeleteMulti key fs r =
     ((int (length fs), None),
      (case lookup r key of
         None \<Rightarrow> r
       | Some m \<Rightarrow> r\<lparr>maps := (maps r)(key \<mapsto> Some (\<lambda>f. if f \<in> set fs then None else m f))\<rparr>))"


subsection \<open>Keys: the pattern as a regular expression\<close>

text \<open>
  \<^verbatim>\<open>Keys\<close> rewrites the pattern with \<^verbatim>\<open>strings.NewReplacer("*", ".*")\<close>, compiles the
  result with \<^verbatim>\<open>regexp.MustCompile\<close> and keeps the keys of \<open>maps\<close> for which
  \<^verbatim>\<open>re.MatchString\<close> holds.

  Go's regexp package is modelled for the expressions that \<open>Replace\<close> produces from a
  pattern of ASCII characters in which \<open>*\<close> is the only character special to the regexp
  syntax (the special ones are the fourteen that \<^verbatim>\<open>regexp.QuoteMeta\<close> escapes). Such an
  expression is a sequence of literal characters and of \<open>.*\<close>. A literal matches itself;
  \<open>.\<close> matches any character but line feed (the package's default, flag \<open>s\<close> unset), so
  \<open>.*\<close> matches any run without a line feed. \<^verbatim>\<open>MatchString\<close> reports whether the string
  \<^emph>\<open>contains\<close> a match: the expression is not anchored. For every other pattern
  \<open>MustCompile\<close> is \<open>None\<close> here: the pattern is outside the modelled fragment (in Go it
  compiles to an expression of another shape, or \<^verbatim>\<open>MustCompile\<close> panics), and \<open>Keys\<close>
  is \<open>None\<close> with it.
\<close>

fun Replace :: "string \<Rightarrow> string" where
  "Replace [] = []"
| "Replace (c # cs) = (if c = CHR ''*'' then ''.*'' @ Replace cs else c # Replace cs)"

datatype item = Lit char | AnyStar

definition meta :: "char \<Rightarrow> bool" where
  "meta c = (c \<in> set (CHR 0x5C # ''.+*?()|[]{}^$''))"

definition ascii :: "char \<Rightarrow> bool" where
  "ascii c = (of_char c < (128 :: nat))"

fun MustCompile :: "string \<Rightarrow> item list option" where
  "MustCompile [] = Some []"
| "MustCompile [c] = (if meta c \<or> \<not> ascii c then None else Some [Lit c])"
| "MustCompile (c # d # cs) =
     (if c = CHR ''.'' \<and> d = CHR ''*'' then map_option ((#) AnyStar) (MustCompile cs)
      else if meta c \<or> \<not> ascii c then None
      else map_option ((#) (Lit c)) (MustCompile (d # cs)))"

text \<open>\<open>match_here re s\<close>: the expression matches a prefix of \<open>s\<close>.\<close>

fun match_here :: "item list \<Rightarrow> string \<Rightarrow> bool" where
  "match_here [] s = True"
| "match_here (Lit c # re) [] = False"
| "match_here (Lit c # re) (x # xs) = (x = c \<and> match_here re xs)"
| "match_here (AnyStar # re) [] = match_here re []"
| "match_here (AnyStar # re) (x # xs) =
     (match_here re (x # xs) \<or> (x \<noteq> CHR 0x0A \<and> match_here (AnyStar # re) xs))"

fun MatchString :: "item list \<Rightarrow> string \<Rightarrow> bool" where
  "MatchString re [] = match_here re []"
| "MatchString re (x # xs) = (match_here re (x # xs) \<or> MatchString re xs)"

definition Keys :: "string \<Rightarrow> MemoryBackend \<Rightarrow> ((string set \<times> error option) \<times> MemoryBackend) option" where
  "Keys key r =
     (case KeysFunc r of
        Some f \<Rightarrow> Some (f key, r)
      | None \<Rightarrow>
          (case MustCompile (Replace key) of
             None \<Rightarrow> None
           | Some re \<Rightarrow> Some (({k \<in> dom (maps r). MatchString re k}, None), r)))"

subsection \<open>Glob matching as the specification words it\<close>

text \<open>
  The specification's reading of a pattern, written from its words and not from the code:
  \<open>*\<close> stands for any sequence of characters, every other character for itself, and the
  pattern is matched against the whole key. \<open>glob_on P\<close> lets \<open>*\<close> stand for runs of
  characters that satisfy \<open>P\<close>; \<open>glob\<close> is the unrestricted one. \<open>plain\<close> holds of the
  patterns in the modelled fragment, and \<open>items\<close> is the expression such a pattern
  compiles to.
\<close>

fun glob_on :: "(char \<Rightarrow> bool) \<Rightarrow> string \<Rightarrow> string \<Rightarrow> bool" where
  "glob_on P [] s = (s = [])"
| "glob_on P (p # ps) [] = (p = CHR ''*'' \<and> glob_on P ps [])"
| "glob_on P (p # ps) (x # xs) =
     (if p = CHR ''*'' then glob_on P ps (x # xs) \<or> (P x \<and> glob_on P (p # ps) xs)
      else x = p \<and> glob_on P ps xs)"

definition glob :: "string \<Rightarrow> string \<Rightarrow> bool" where
  "glob = glob_on (\<lambda>c. True)"

definition plain :: "string \<Rightarrow> bool" where
  "plain p = list_all (\<lambda>c. ascii c \<and> (c = CHR ''*'' \<or> \<not> meta c)) p"

definition items :: "string \<Rightarrow> item list" where
  "items p = map (\<lambda>c. if c = CHR ''*'' then AnyStar else Lit c) p"

text \<open>
  The backend of the specification's scenario: the configuration keys of the applications
  foo and bar of environment prod and baz of environment staging have been written.
\<close>

definition scenario :: MemoryBackend where
  "scenario =
     snd (SetMulti ''app:staging:baz'' (Some Map.empty)
       (snd (SetMulti ''app:prod:bar'' (Some Map.empty)
         (snd (SetMulti ''app:prod:foo'' (Some Map.empty) NewMemoryBackend)))))"

section \<open>The Store's application operations\<close>

text \<open>
  The Store (package config) and the commands built on it (package commander) are called by
  the command-line functions \<^verbatim>\<open>appExists\<close>, \<^verbatim>\<open>appCreate\<close> and \<^verbatim>\<open>appDelete\<close>, but
  their own code is not among the sources. The definitions of this section follow the
  specification's description of the operations (its section 4.3) and run on the in-memory
  backend above. They return the backend as the call leaves it. The change notification
  that the specification has every successful mutation publish does not touch \<open>maps\<close>
  and is left out.
\<close>









section \<open>The registry lookup and the status command\<close>

text \<open>
  \<^verbatim>\<open>status\<close> (package main, discovery/status.go) is among the sources; the registry it
  asks, the runtime that lists the containers, \<^verbatim>\<open>utils.HumanDuration\<close> and the clock are
  not. A container carries its identifier, image and creation time; a registration carries
  the fields that \<^verbatim>\<open>status\<close> reads. Times and durations are integers.
\<close>

record Container =
  ID :: string
  Image_container :: string
  Created :: int

record ServiceRegistration =
  ContainerID :: string
  Image_registration :: string
  ExternalAddr :: string
  InternalAddr :: string
  StartedAt :: int
  Expires :: int

text \<open>
  Modelled from the spec: the Registry's use of the backend, which the specification leaves
  open: the key of a container's registration in an environment and pool, and the coding of
  a registration as the fields of that key.
\<close>

record Registry =
  registration_key :: "string \<Rightarrow> string \<Rightarrow> string \<Rightarrow> string"
  encode :: "ServiceRegistration \<Rightarrow> (string \<rightharpoonup> string)"
  decode :: "(string \<rightharpoonup> string) \<Rightarrow> ServiceRegistration"


text \<open>
  Modelled from the spec: \<^verbatim>\<open>Registry.GetServiceRegistration\<close> (section 4.4). The
  registration's key is read with \<open>GetAll\<close>; a backend error is returned as the error; a key
  with no field stored (a missing key, a nil map or an empty one) gives a nil registration
  and no error.
\<close>

definition GetServiceRegistration :: "Registry \<Rightarrow> string \<Rightarrow> string \<Rightarrow> Container \<Rightarrow> MemoryBackend \<Rightarrow> ServiceRegistration option \<times> error option" where
  "GetServiceRegistration G env pool container r =
     (case fst (GetAll (registration_key G env pool (ID container)) r) of
        (fs, Some e) \<Rightarrow> (None, Some e)
      | (None, None) \<Rightarrow> (None, None)
      | (Some m, None) \<Rightarrow> (if dom m = {} then (None, None) else (Some (decode G m), None)))"

text \<open>
  What \<^verbatim>\<open>status\<close> takes from code outside the sources: the containers the runtime
  manages (or its error), a container's environment, \<^verbatim>\<open>utils.HumanDuration\<close> and the
  clock, read once.
\<close>

record Runtime =
  ManagedContainers :: "Container list \<times> error option"
  EnvFor :: "Container \<Rightarrow> (string \<rightharpoonup> string)"
  HumanDuration :: "int \<Rightarrow> string"
  Now :: int

text \<open>\<^verbatim>\<open>strings.Join\<close>, and the slice \<^verbatim>\<open>s[0:12]\<close>, which panics on a shorter string.\<close>

fun Join :: "string list \<Rightarrow> string \<Rightarrow> string" where
  "Join [] sep = []"
| "Join [x] sep = x"
| "Join (x # y # ys) sep = x @ sep @ Join (y # ys) sep"

definition slice12 :: "string \<Rightarrow> string option" where
  "slice12 s = (if length s < 12 then None else Some (take 12 s))"

text \<open>
  The outcome of \<^verbatim>\<open>status\<close>: the table is printed (its rows, before
  \<^verbatim>\<open>columnize.SimpleFormat\<close> aligns them); or the lookup of a container failed, the error
  message is printed and the command returns without a table; or the command panics.
\<close>

datatype report = Printed "string list" | LookupFailed string | Panicked

definition untracked_row :: "Runtime \<Rightarrow> Container \<Rightarrow> string option" where
  "untracked_row D container =
     (case slice12 (ID container) of
        None \<Rightarrow> None
      | Some short \<Rightarrow>
          Some (Join [short, Image_container container, '''', '''',
                      HumanDuration D (Now D - Created container) @ '' ago'', ''''] '' | ''))"

definition registered_row :: "Runtime \<Rightarrow> ServiceRegistration \<Rightarrow> string option" where
  "registered_row D registered =
     (case slice12 (ContainerID registered) of
        None \<Rightarrow> None
      | Some short \<Rightarrow>
          Some (Join [short, Image_registration registered, ExternalAddr registered,
                      InternalAddr registered,
                      HumanDuration D (Now D - StartedAt registered) @ '' ago'',
                      ''In '' @ HumanDuration D (Expires registered - Now D)] '' | ''))"

text \<open>The loop over the containers; \<open>out\<close> is the output buffer so far.\<close>

fun status_rows :: "Registry \<Rightarrow> Runtime \<Rightarrow> string \<Rightarrow> string \<Rightarrow> MemoryBackend \<Rightarrow> Container list \<Rightarrow> string list \<Rightarrow> report" where
  "status_rows G D env pool r [] out = Printed out"
| "status_rows G D env pool r (container # cs) out =
     (let name = (case EnvFor D container ''GALAXY_APP'' of None \<Rightarrow> '''' | Some n \<Rightarrow> n)
      in case GetServiceRegistration G env pool container r of
           (registered, Some (Error msg)) \<Rightarrow>
             LookupFailed (''ERROR: Unable to determine status of '' @ name @ '': '' @ msg @ [CHR 0x0A])
         | (Some registered, None) \<Rightarrow>
             (case registered_row D registered of
                None \<Rightarrow> Panicked
              | Some row \<Rightarrow> status_rows G D env pool r cs (out @ [row]))
         | (None, None) \<Rightarrow>
             (case untracked_row D container of
                None \<Rightarrow> Panicked
              | Some row \<Rightarrow> status_rows G D env pool r cs (out @ [row])))"

definition status :: "Registry \<Rightarrow> Runtime \<Rightarrow> string \<Rightarrow> string \<Rightarrow> MemoryBackend \<Rightarrow> report" where
  "status G D env pool r =
     (case ManagedContainers D of
        (containers, Some e) \<Rightarrow> Panicked
      | (containers, None) \<Rightarrow>
          status_rows G D env pool r containers
            [Join [''CONTAINER ID'', ''IMAGE'', ''EXTERNAL'', ''INTERNAL'', ''CREATED'', ''EXPIRES''] '' | ''])"






section \<open>Properties of the backend\<close>

text \<open>
  Claim C9. A record is persisted by one call of \<open>SetMulti\<close>, which stores the whole field
  map under the key: on a backend whose \<open>SetMultiFunc\<close> is not replaced, for every key and
  field map, \<open>SetMulti\<close> answers OK without error, and \<open>GetAll\<close> on the resulting backend
  returns exactly the map that was written, whatever was stored under the key before.
\<close>

theorem SetMulti_GetAll:
  assumes "SetMultiFunc r = None"
  shows "fst (SetMulti key vals r) = (''OK'', None)
       \<and> fst (GetAll key (snd (SetMulti key vals r))) = (vals, None)
       \<and> snd (GetAll key (snd (SetMulti key vals r))) = snd (SetMulti key vals r)"
  using assms by (simp add: SetMulti_def GetAll_def lookup_def)

theorem SetMulti_GetAll_witness:
  "SetMultiFunc (snd (SetMulti ''k'' (Some [''old'' \<mapsto> ''1'', ''version'' \<mapsto> ''a'']) NewMemoryBackend)) = None
   \<and> fst (GetAll ''k'' (snd (SetMulti ''k'' (Some [''version'' \<mapsto> ''b''])
        (snd (SetMulti ''k'' (Some [''old'' \<mapsto> ''1'', ''version'' \<mapsto> ''a'']) NewMemoryBackend)))))
     = (Some [''version'' \<mapsto> ''b''], None)"
proof -
  let ?r = "snd (SetMulti ''k'' (Some [''old'' \<mapsto> ''1'', ''version'' \<mapsto> ''a'']) NewMemoryBackend)"
  have h: "SetMultiFunc ?r = None"
    by (simp add: SetMulti_def NewMemoryBackend_def)
  from SetMulti_GetAll [OF h, of "''k''" "Some [''version'' \<mapsto> ''b'']"] h
  show ?thesis by simp
qed

text \<open>
  Claim C10. Set mutations may be applied redundantly. On a backend whose set methods are
  not replaced, for every key and value: \<open>AddMember\<close> of a value that is already a member
  returns without error and leaves the member set as it was; a second \<open>AddMember\<close> of the
  same value leaves the backend exactly as the first one left it; and \<open>RemoveMember\<close> of a
  value that is not a member returns without error and changes nothing.
\<close>

theorem set_mutations_redundant:
  assumes "AddMemberFunc r = None" and "RemoveMemberFunc r = None" and "MembersFunc r = None"
  shows "(val \<in> fst (fst (Members key r)) \<longrightarrow>
            snd (fst (AddMember key val r)) = None
          \<and> fst (fst (Members key (snd (AddMember key val r)))) = fst (fst (Members key r)))
       \<and> snd (fst (AddMember key val (snd (AddMember key val r)))) = None
       \<and> snd (AddMember key val (snd (AddMember key val r))) = snd (AddMember key val r)
       \<and> fst (fst (Members key (snd (AddMember key val r)))) = insert val (fst (fst (Members key r)))
       \<and> (val \<notin> fst (fst (Members key r)) \<longrightarrow> RemoveMember key val r = ((0, None), r))"
proof -
  have a: "val \<in> fst (fst (Members key r)) \<longrightarrow>
            snd (fst (AddMember key val r)) = None
          \<and> fst (fst (Members key (snd (AddMember key val r)))) = fst (fst (Members key r))"
    using assms by (auto simp: AddMember_def Members_def lookup_def split: option.splits)
  have b: "snd (fst (AddMember key val (snd (AddMember key val r)))) = None"
    using assms by (simp add: AddMember_def)
  have c: "snd (AddMember key val (snd (AddMember key val r))) = snd (AddMember key val r)"
    using assms by (simp add: AddMember_def lookup_def)
  have d: "fst (fst (Members key (snd (AddMember key val r)))) = insert val (fst (fst (Members key r)))"
    using assms by (auto simp: AddMember_def Members_def lookup_def split: option.splits)
  have e: "val \<notin> fst (fst (Members key r)) \<longrightarrow> RemoveMember key val r = ((0, None), r)"
    using assms by (auto simp: RemoveMember_def Members_def lookup_def split: option.splits)
  from a b c d e show ?thesis by blast
qed

theorem set_mutations_redundant_witness:
  "AddMemberFunc (snd (AddMember ''pool'' ''app'' NewMemoryBackend)) = None
   \<and> ''app'' \<in> fst (fst (Members ''pool'' (snd (AddMember ''pool'' ''app'' NewMemoryBackend))))
   \<and> ''web'' \<notin> fst (fst (Members ''pool'' (snd (AddMember ''pool'' ''app'' NewMemoryBackend))))
   \<and> fst (fst (Members ''pool'' (snd (AddMember ''pool'' ''app''
        (snd (AddMember ''pool'' ''app'' NewMemoryBackend)))))) = {''app''}
   \<and> RemoveMember ''pool'' ''web'' (snd (AddMember ''pool'' ''app'' NewMemoryBackend))
       = ((0, None), snd (AddMember ''pool'' ''app'' NewMemoryBackend))"
proof -
  let ?r = "snd (AddMember ''pool'' ''app'' NewMemoryBackend)"
  have h1: "AddMemberFunc ?r = None" and h2: "RemoveMemberFunc ?r = None"
    and h3: "MembersFunc ?r = None"
    by (simp_all add: AddMember_def NewMemoryBackend_def)
  have m: "fst (fst (Members ''pool'' ?r)) = {''app''}"
    by (simp add: Members_def AddMember_def NewMemoryBackend_def lookup_def)
  from set_mutations_redundant [OF h1 h2 h3, of "''app''" "''pool''"]
       set_mutations_redundant [OF h1 h2 h3, of "''web''" "''pool''"] h1 m
  show ?thesis by simp
qed

subsection \<open>Keys\<close>

lemma MustCompile_lit:
  "\<not> meta c \<Longrightarrow> ascii c \<Longrightarrow> MustCompile (c # s) = map_option ((#) (Lit c)) (MustCompile s)"
  by (cases s) (auto simp: meta_def)

lemma MustCompile_plain: "plain p \<Longrightarrow> MustCompile (Replace p) = Some (items p)"
proof (induction p)
  case Nil
  then show ?case by (simp add: items_def)
next
  case (Cons c p)
  then have ih: "MustCompile (Replace p) = Some (items p)" by (simp add: plain_def)
  show ?case
  proof (cases "c = CHR ''*''")
    case True
    then show ?thesis using ih by (simp add: items_def)
  next
    case False
    with Cons.prems have "\<not> meta c" "ascii c" by (auto simp: plain_def)
    then show ?thesis using ih False by (simp add: MustCompile_lit items_def)
  qed
qed

text \<open>The compiled expression matches a prefix of \<open>s\<close> exactly when the pattern matches
  a prefix glob-style, \<open>*\<close> not crossing a line feed.\<close>

lemma match_here_glob:
  "match_here (items p) s \<longleftrightarrow> (\<exists>w v. s = w @ v \<and> glob_on (\<lambda>c. c \<noteq> CHR 0x0A) p w)"
proof (induction "\<lambda>c::char. c \<noteq> CHR 0x0A" p s rule: glob_on.induct)
  case (1 s)
  then show ?case by (simp add: items_def)
next
  case (2 p ps)
  then show ?case by (auto simp: items_def)
next
  case (3 p ps x xs)
  let ?G = "glob_on (\<lambda>c. c \<noteq> CHR 0x0A)"
  show ?case
  proof (cases "p = CHR ''*''")
    case True
    have "match_here (items (p # ps)) (x # xs) \<longleftrightarrow>
            match_here (items ps) (x # xs) \<or> (x \<noteq> CHR 0x0A \<and> match_here (items (p # ps)) xs)"
      using True by (simp add: items_def)
    also have "\<dots> \<longleftrightarrow> (\<exists>w v. x # xs = w @ v \<and> ?G ps w)
                 \<or> (x \<noteq> CHR 0x0A \<and> (\<exists>w v. xs = w @ v \<and> ?G (p # ps) w))"
      using 3 True by simp
    also have "\<dots> \<longleftrightarrow> (\<exists>w v. x # xs = w @ v \<and> ?G (p # ps) w)"
      (is "?L \<longleftrightarrow> ?R")
    proof
      assume ?L
      then show ?R
      proof
        assume "\<exists>w v. x # xs = w @ v \<and> ?G ps w"
        then obtain w v where wv: "x # xs = w @ v" "?G ps w" by blast
        then have "?G (p # ps) w" using True by (cases w) auto
        with wv show ?R by blast
      next
        assume "x \<noteq> CHR 0x0A \<and> (\<exists>w v. xs = w @ v \<and> ?G (p # ps) w)"
        then obtain w v where wv: "x \<noteq> CHR 0x0A" "xs = w @ v" "?G (p # ps) w" by blast
        then have "x # xs = (x # w) @ v" "?G (p # ps) (x # w)"
          using True by auto
        then show ?R by blast
      qed
    next
      assume ?R
      then obtain w v where wv: "x # xs = w @ v" "?G (p # ps) w" by blast
      show ?L
      proof (cases w)
        case Nil
        with wv True have "?G ps []" by simp
        then have "x # xs = [] @ (x # xs) \<and> ?G ps []" by simp
        then show ?thesis by blast
      next
        case (Cons y w')
        with wv have y: "y = x" "xs = w' @ v" by auto
        from wv(2) Cons True y have
          "?G ps (x # w') \<or> (x \<noteq> CHR 0x0A \<and> ?G (p # ps) w')"
          by simp
        then show ?thesis
        proof
          assume "?G ps (x # w')"
          with y have "x # xs = (x # w') @ v \<and> ?G ps (x # w')" by simp
          then show ?thesis by blast
        next
          assume "x \<noteq> CHR 0x0A \<and> ?G (p # ps) w'"
          with y show ?thesis by blast
        qed
      qed
    qed
    finally show ?thesis .
  next
    case False
    have "match_here (items (p # ps)) (x # xs) \<longleftrightarrow> x = p \<and> match_here (items ps) xs"
      using False by (simp add: items_def)
    also have "\<dots> \<longleftrightarrow> x = p \<and> (\<exists>w v. xs = w @ v \<and> ?G ps w)"
      using 3 False by simp
    also have "\<dots> \<longleftrightarrow> (\<exists>w v. x # xs = w @ v \<and> ?G (p # ps) w)"
      (is "?L \<longleftrightarrow> ?R")
    proof
      assume ?L
      then obtain w v where wv: "x = p" "xs = w @ v" "?G ps w" by blast
      then have "x # xs = (x # w) @ v \<and> ?G (p # ps) (x # w)"
        using False by simp
      then show ?R by blast
    next
      assume ?R
      then obtain w v where wv: "x # xs = w @ v" "?G (p # ps) w" by blast
      show ?L
      proof (cases w)
        case Nil
        with wv False show ?thesis by simp
      next
        case (Cons y w')
        with wv False have "x = p" "xs = w' @ v" "?G ps w'" by auto
        then show ?thesis by blast
      qed
    qed
    finally show ?thesis .
  qed
qed

lemma MatchString_iff: "MatchString re s \<longleftrightarrow> (\<exists>u t. s = u @ t \<and> match_here re t)"
proof (induction s)
  case Nil
  then show ?case by simp
next
  case (Cons x xs)
  have "(\<exists>u t. x # xs = u @ t \<and> match_here re t) \<longleftrightarrow>
          match_here re (x # xs) \<or> (\<exists>u t. xs = u @ t \<and> match_here re t)"
    by (auto simp: Cons_eq_append_conv)
  with Cons show ?case by simp
qed

lemma MatchString_sublist:
  "MatchString (items p) k \<longleftrightarrow> (\<exists>w. sublist w k \<and> glob_on (\<lambda>c. c \<noteq> CHR 0x0A) p w)"
  by (auto simp: MatchString_iff match_here_glob sublist_def)

lemma glob_on_mono: "glob_on P p s \<Longrightarrow> (\<forall>c \<in> set s. P c \<longrightarrow> Q c) \<Longrightarrow> glob_on Q p s"
  by (induction P p s rule: glob_on.induct) (auto split: if_splits)

lemma Keys_plain:
  "KeysFunc r = None \<Longrightarrow> plain p \<Longrightarrow>
   Keys p r = Some (({k \<in> dom (maps r). MatchString (items p) k}, None), r)"
  by (simp add: Keys_def MustCompile_plain)

lemma Collect_insert_if:
  "{k \<in> insert a A. P k} = (if P a then insert a {k \<in> A. P k} else {k \<in> A. P k})"
  by auto

lemma Collect_in_empty: "{k \<in> {}. P k} = {}"
  by simp

lemma scenario_hooks: "KeysFunc scenario = None"
  by (simp add: scenario_def SetMulti_def NewMemoryBackend_def)

lemma scenario_dom: "dom (maps scenario) = {''app:staging:baz'', ''app:prod:bar'', ''app:prod:foo''}"
  by (simp add: scenario_def SetMulti_def NewMemoryBackend_def)

lemma plain_app_prod: "plain ''app:prod:*''"
  by (simp add: plain_def meta_def ascii_def)

lemma plain_prod: "plain ''prod:*''"
  by (simp add: plain_def meta_def ascii_def)

lemma match_app_prod:
  "MatchString (items ''app:prod:*'') ''app:prod:foo''"
  "MatchString (items ''app:prod:*'') ''app:prod:bar''"
  "\<not> MatchString (items ''app:prod:*'') ''app:staging:baz''"
  by (simp_all add: items_def)

lemma match_prod:
  "MatchString (items ''prod:*'') ''app:prod:foo''"
  "MatchString (items ''prod:*'') ''app:prod:bar''"
  "\<not> MatchString (items ''prod:*'') ''app:staging:baz''"
  by (simp_all add: items_def)

lemma Keys_scenario:
  "Keys ''app:prod:*'' scenario = Some (({''app:prod:bar'', ''app:prod:foo''}, None), scenario)"
proof -
  have "{k \<in> dom (maps scenario). MatchString (items ''app:prod:*'') k}
          = {''app:prod:bar'', ''app:prod:foo''}"
    unfolding scenario_dom
    by (simp only: Collect_insert_if Collect_in_empty match_app_prod if_True if_False)
  then show ?thesis
    using Keys_plain [OF scenario_hooks plain_app_prod] by simp
qed

text \<open>
  Claim C2, as the code has it. On a backend whose \<open>KeysFunc\<close> is not replaced, and for a
  pattern of ASCII characters of which only \<open>*\<close> is special to the regexp syntax,
  \<open>Keys\<close> returns without error exactly the stored keys that \<^emph>\<open>contain\<close> a segment
  matching the pattern glob-style, \<open>*\<close> standing for any run of characters other than line
  feed. So every stored key without a line feed that matches the pattern as a whole is
  returned. In the scenario, \<open>Keys "app:prod:*"\<close> returns exactly the keys of foo and bar.
\<close>

theorem Keys_returns_keys_containing_a_match:
  assumes "KeysFunc r = None" and "plain p"
  shows "Keys p r =
           Some (({k \<in> dom (maps r). \<exists>w. sublist w k \<and> glob_on (\<lambda>c. c \<noteq> CHR 0x0A) p w}, None), r)
       \<and> (\<forall>k \<in> dom (maps r). glob p k \<and> CHR 0x0A \<notin> set k \<longrightarrow>
             (\<exists>ks. Keys p r = Some ((ks, None), r) \<and> k \<in> ks))
       \<and> Keys ''app:prod:*'' scenario
           = Some (({''app:prod:bar'', ''app:prod:foo''}, None), scenario)"
proof -
  let ?G = "glob_on (\<lambda>c. c \<noteq> CHR 0x0A)"
  have a: "Keys p r = Some (({k \<in> dom (maps r). \<exists>w. sublist w k \<and> ?G p w}, None), r)"
    using Keys_plain [OF assms] by (simp add: MatchString_sublist)
  have b: "\<exists>ks. Keys p r = Some ((ks, None), r) \<and> k \<in> ks"
    if k: "k \<in> dom (maps r)" and g: "glob p k" and nl: "CHR 0x0A \<notin> set k" for k
  proof -
    from g nl have "?G p k"
      unfolding glob_def by (rule_tac glob_on_mono) auto
    then have "\<exists>w. sublist w k \<and> ?G p w" by (rule_tac x = k in exI) simp
    with k a show ?thesis by simp
  qed
  from a b Keys_scenario show ?thesis by blast
qed

theorem Keys_returns_keys_containing_a_match_witness:
  "KeysFunc scenario = None \<and> plain ''app:prod:*''
   \<and> ''app:prod:foo'' \<in> dom (maps scenario) \<and> glob ''app:prod:*'' ''app:prod:foo''
   \<and> CHR 0x0A \<notin> set ''app:prod:foo''
   \<and> (\<exists>ks. Keys ''app:prod:*'' scenario = Some ((ks, None), scenario) \<and> ''app:prod:foo'' \<in> ks)"
proof -
  have d: "''app:prod:foo'' \<in> dom (maps scenario)"
    unfolding scenario_dom by simp
  have g: "glob ''app:prod:*'' ''app:prod:foo''"
    by (simp add: glob_def)
  have n: "CHR 0x0A \<notin> set ''app:prod:foo''"
    by simp
  from Keys_returns_keys_containing_a_match [OF scenario_hooks plain_app_prod] d g n
  have "\<exists>ks. Keys ''app:prod:*'' scenario = Some ((ks, None), scenario) \<and> ''app:prod:foo'' \<in> ks"
    by blast
  with scenario_hooks plain_app_prod d g n show ?thesis by blast
qed

text \<open>
  The claim as the specification states it fails: the match is not anchored. On the
  scenario's backend \<open>Keys "prod:*"\<close> returns the keys of foo and bar, neither of which
  matches the pattern \<open>prod:*\<close> glob-style.
\<close>

theorem Keys_not_glob_counterexample:
  "Keys ''prod:*'' scenario = Some (({''app:prod:bar'', ''app:prod:foo''}, None), scenario)
   \<and> \<not> glob ''prod:*'' ''app:prod:foo'' \<and> \<not> glob ''prod:*'' ''app:prod:bar''"
proof -
  have "{k \<in> dom (maps scenario). MatchString (items ''prod:*'') k}
          = {''app:prod:bar'', ''app:prod:foo''}"
    unfolding scenario_dom
    by (simp only: Collect_insert_if Collect_in_empty match_prod if_True if_False)
  then have "Keys ''prod:*'' scenario = Some (({''app:prod:bar'', ''app:prod:foo''}, None), scenario)"
    using Keys_plain [OF scenario_hooks plain_prod] by simp
  moreover have "\<not> glob ''prod:*'' ''app:prod:foo''" "\<not> glob ''prod:*'' ''app:prod:bar''"
    by (simp_all add: glob_def)
  ultimately show ?thesis by blast
qed

section \<open>Properties of the Store's application operations\<close>

lemma Members_own:
  "MembersFunc r = None \<Longrightarrow>
   fst (fst (Members k r)) = (case lookup r k of None \<Rightarrow> {} | Some m \<Rightarrow> dom m)"
  by (simp add: Members_def)











section \<open>Properties of the status command\<close>







end
